theory Spec2Isabelle
  imports Complex_Main
begin

section \<open>Python values used by the scoring engine of \<open>app.py\<close>\<close>

subsection \<open>Strings\<close>

text \<open>
  A Python \<open>str\<close> is modelled as a \<open>string\<close>. \<open>str.lower()\<close> maps the letters
  \<open>A\<close> .. \<open>Z\<close> (code points 65 .. 90) to \<open>a\<close> .. \<open>z\<close>. Every other character of the
  model is left alone: text outside ASCII is carried as the bytes of its encoding, and
  all keywords of the program are lower-case ASCII.
\<close>

definition lower_char :: "char \<Rightarrow> char" where
  "lower_char c =
     (let n = (of_char c :: nat) in if 65 \<le> n \<and> n \<le> 90 then char_of (n + 32) else c)"

definition py_lower :: "string \<Rightarrow> string" where
  "py_lower s = map lower_char s"

text \<open>\<open>starts_with sub s\<close>: the string \<open>s\<close> begins with \<open>sub\<close>.\<close>

fun starts_with :: "string \<Rightarrow> string \<Rightarrow> bool" where
  "starts_with [] s = True"
| "starts_with (a # sub) [] = False"
| "starts_with (a # sub) (c # s) = (a = c \<and> starts_with sub s)"

text \<open>\<open>str_in sub s\<close> is Python's \<open>sub in s\<close> on strings: \<open>sub\<close> occurs at some position of \<open>s\<close>.\<close>

fun str_in :: "string \<Rightarrow> string \<Rightarrow> bool" where
  "str_in sub [] = (sub = [])"
| "str_in sub (c # s) = (starts_with sub (c # s) \<or> str_in sub s)"

subsection \<open>Numbers\<close>

text \<open>
  A Python number (an \<open>int\<close> or a finite \<open>float\<close>) is modelled by the real number it
  denotes. Arithmetic on floats rounds its exact result to the nearest binary64 value,
  ties to even: that is \<open>fl\<close> below, with 53 significant bits and the smallest exponent
  \<open>- 1074\<close> of the subnormal range. A float literal such as \<open>0.7\<close> denotes \<open>fl (7 / 10)\<close>.
  The exponent of \<open>fl\<close> is not limited above; where a result can leave the binary64
  range, the range is checked on the value of \<open>fl\<close> (see \<open>to_binary64\<close> and \<open>py_truediv\<close>
  below).

  \<open>py_round\<close> is Python's one-argument \<open>round\<close>: the nearest integer, a tie going to the
  even neighbour.
\<close>

definition py_round :: "real \<Rightarrow> int" where
  "py_round x =
     (let f = \<lfloor>x\<rfloor>; d = x - of_int f
      in if d < 1 / 2 then f else if 1 / 2 < d then f + 1 else if even f then f else f + 1)"

text \<open>\<open>binexp x\<close> is the binary exponent of a positive \<open>x\<close>: \<open>2 ^ e \<le> x < 2 ^ (e + 1)\<close>.\<close>

function binexp :: "real \<Rightarrow> int" where
  "binexp x =
     (if x \<le> 0 then 0
      else if 2 \<le> x then binexp (x / 2) + 1
      else if x < 1 then binexp (x * 2) - 1
      else 0)"
  by pat_completeness auto
termination
proof (relation "measure (\<lambda>x. nat \<bar>\<lfloor>log 2 x\<rfloor>\<bar>)")
  show "wf (measure (\<lambda>x. nat \<bar>\<lfloor>log 2 x\<rfloor>\<bar>))"
    by simp
next
  fix x :: real
  assume "\<not> x \<le> 0" and "2 \<le> x"
  then have "log 2 (x / 2) = log 2 x - 1" and "1 \<le> log 2 x"
    by (simp_all add: log_divide)
  then show "(x / 2, x) \<in> measure (\<lambda>x. nat \<bar>\<lfloor>log 2 x\<rfloor>\<bar>)"
    by simp
next
  fix x :: real
  assume "\<not> x \<le> 0" and "\<not> 2 \<le> x" and "x < 1"
  then have "log 2 (x * 2) = log 2 x + 1" and "log 2 x < 0"
    by (simp_all add: log_mult)
  moreover from this have "\<lfloor>log 2 x\<rfloor> < 0"
    by linarith
  ultimately show "(x * 2, x) \<in> measure (\<lambda>x. nat \<bar>\<lfloor>log 2 x\<rfloor>\<bar>)"
    by (simp; linarith)
qed

declare binexp.simps [simp del]

text \<open>\<open>quantum x\<close> is the exponent of the unit in the last place of the binade of \<open>x\<close>.\<close>

definition quantum :: "real \<Rightarrow> int" where
  "quantum x = max (binexp \<bar>x\<bar> - 52) (- 1074)"

definition fl :: "real \<Rightarrow> real" where
  "fl x = of_int (py_round (x / 2 powi quantum x)) * 2 powi quantum x"

text \<open>
  The float operations of the program on finite values. An \<open>int\<close> operand of \<open>-\<close>, \<open>*\<close>
  and \<open>+\<close> is converted to a float first (\<open>fl\<close> leaves a float as it is). \<open>/\<close> is true
  division, correctly rounded also on two \<open>int\<close>s; the program divides by the literals
  8, 30 and 3 only, so \<open>ZeroDivisionError\<close> does not arise.
\<close>

definition float_sub :: "real \<Rightarrow> real \<Rightarrow> real" where
  "float_sub a b = fl (fl a - fl b)"

definition float_mul :: "real \<Rightarrow> real \<Rightarrow> real" where
  "float_mul a b = fl (fl a * fl b)"

definition float_add :: "real \<Rightarrow> real \<Rightarrow> real" where
  "float_add a b = fl (fl a + fl b)"

definition truediv :: "real \<Rightarrow> real \<Rightarrow> real" where
  "truediv a b = fl (a / b)"

subsection \<open>Dictionaries\<close>

text \<open>
  A dict literal is an association list. \<open>d[k]\<close> raises \<open>KeyError\<close> on a missing key,
  \<open>d.get(k, default)\<close> returns the default.
\<close>

datatype py_error = KeyError | OverflowError | ValueError

definition py_getitem :: "('k \<times> 'v) list \<Rightarrow> 'k \<Rightarrow> py_error + 'v" where
  "py_getitem d k = (case map_of d k of None \<Rightarrow> Inl KeyError | Some v \<Rightarrow> Inr v)"

definition py_get :: "('k \<times> 'v) list \<Rightarrow> 'k \<Rightarrow> 'v \<Rightarrow> 'v" where
  "py_get d k dflt = (case map_of d k of None \<Rightarrow> dflt | Some v \<Rightarrow> v)"

subsection \<open>Floats beyond the finite range\<close>



text \<open>
  \<open>a / b\<close> on a request field \<open>a\<close> (an \<open>int\<close> or a finite \<open>float\<close>) and an \<open>int\<close> literal
  \<open>b\<close>. A finite float divided by 8 or 30 stays finite; an \<open>int\<close> whose quotient is too large
  for a float raises \<open>OverflowError\<close>.
\<close>

definition py_truediv :: "real \<Rightarrow> real \<Rightarrow> py_error + real" where
  "py_truediv a b =
     (let q = truediv a b in if 2 ^ 1024 \<le> \<bar>q\<bar> then Inl OverflowError else Inr q)"






section \<open>The lexical sentiment classifier\<close>

definition positive_words :: "string list" where
  "positive_words =
     [''happy'', ''good'', ''great'', ''excited'', ''joy'', ''love'', ''nice'', ''positive'',
      ''awesome'', ''fantastic'']"

definition negative_words :: "string list" where
  "negative_words =
     [''sad'', ''bad'', ''angry'', ''hate'', ''upset'', ''stress'', ''anxious'', ''depress'',
      ''tired'', ''worried'']"

definition analyze_sentiment :: "string \<Rightarrow> string \<times> real" where
  "analyze_sentiment text =
     (let text_lower = py_lower text;
          positive_count = sum_list [1 :: nat. word \<leftarrow> positive_words, str_in word text_lower];
          negative_count = sum_list [1 :: nat. word \<leftarrow> negative_words, str_in word text_lower]
      in if positive_count > negative_count then (''POSITIVE'', fl (7 / 10))
         else if negative_count > positive_count then (''NEGATIVE'', fl (7 / 10))
         else (''NEUTRAL'', fl (6 / 10)))"

text \<open>
  The classifier as the specification words it: \<open>P\<close> and \<open>N\<close> are the numbers of
  keywords of each list that occur somewhere in the folded text.
\<close>

definition occurs_in :: "string \<Rightarrow> string \<Rightarrow> bool" where
  "occurs_in w t \<longleftrightarrow> (\<exists>pre post. t = pre @ w @ post)"

definition keyword_hits :: "string list \<Rightarrow> string \<Rightarrow> nat" where
  "keyword_hits keywords t = card {w \<in> set keywords. occurs_in w t}"

definition classify_spec :: "string \<Rightarrow> string \<times> real" where
  "classify_spec text =
     (let P = keyword_hits positive_words (py_lower text);
          N = keyword_hits negative_words (py_lower text)
      in if P > N then (''POSITIVE'', fl (7 / 10))
         else if N > P then (''NEGATIVE'', fl (7 / 10))
         else (''NEUTRAL'', fl (6 / 10)))"

section \<open>Recommendation generators and score calculators\<close>

definition recommendations_table :: "(string \<times> string list) list" where
  "recommendations_table =
     [(''POSITIVE'',
       [''Keep up the positive mindset with regular exercise and social connections'',
        ''Practice gratitude and maintain your current healthy habits'',
        ''Consider sharing your positivity with others who might need support'']),
      (''NEGATIVE'',
       [''Consider talking to a trusted friend, family member, or mental health professional'',
        ''Try relaxation techniques like deep breathing or meditation'',
        ''Engage in physical activity, even a short walk can help improve mood'',
        ''Ensure you're getting adequate sleep and nutrition'']),
      (''NEUTRAL'',
       [''Engage in activities that bring you joy and fulfillment'',
        ''Connect with friends and family for social support'',
        ''Try mindfulness or meditation practices'',
        ''Consider exploring new hobbies or interests''])]"

text \<open>
  \<open>recommendations.get(sentiment, recommendations['NEUTRAL'])\<close>: the default is looked up
  first, as Python evaluates the arguments before the call.
\<close>

definition generate_mental_health_recommendations :: "string \<Rightarrow> real \<Rightarrow> py_error + string list" where
  "generate_mental_health_recommendations sentiment confidence =
     (case py_getitem recommendations_table ''NEUTRAL'' of
        Inl e \<Rightarrow> Inl e
      | Inr neutral \<Rightarrow> Inr (py_get recommendations_table sentiment neutral))"

definition base_scores :: "(string \<times> int) list" where
  "base_scores = [(''POSITIVE'', 85), (''NEUTRAL'', 60), (''NEGATIVE'', 35)]"

definition calculate_mood_score :: "string \<Rightarrow> real \<Rightarrow> real" where
  "calculate_mood_score sentiment confidence =
     (let base_score = py_get base_scores sentiment 60;
          confidence_adjustment = float_mul (float_sub confidence (5 / 10)) 20
      in max 10 (min 100 (float_add (of_int base_score) confidence_adjustment)))"

text \<open>
  The score computation of the route \<open>track_wellness\<close>: the three request fields in, the
  dict \<open>wellness_data\<close> out (its \<open>overall_score\<close> is the route's \<open>wellness_score\<close>), or the
  exception that ends the computation (the route answers it with status 500). Storing the
  record and building the response are left out.

  The dict is built after \<open>round\<close> has returned. Then the average is finite, and so are
  the three scores it was added up from (\<open>average_finite\<close> below), so the record holds them
  as reals and the last branch of the definition is never taken.
\<close>

record wellness_data =
  sleep_hours :: real
  exercise_minutes :: real
  water_glasses :: real
  sleep_score :: real
  exercise_score :: real
  water_score :: real
  overall_score :: int


definition generate_wellness_recommendations :: "real \<Rightarrow> wellness_data \<Rightarrow> string list" where
  "generate_wellness_recommendations wellness_score wellness_data' =
     (let recommendations = [];
          recommendations =
            (if sleep_score wellness_data' < 70
             then recommendations @ [''Aim for 7-9 hours of quality sleep each night'']
             else recommendations);
          recommendations =
            (if exercise_score wellness_data' < 70
             then recommendations @ [''Try to get at least 30 minutes of physical activity daily'']
             else recommendations);
          recommendations =
            (if water_score wellness_data' < 70
             then recommendations @ [''Increase water intake to 8 glasses per day'']
             else recommendations)
      in if wellness_score \<ge> 80
         then recommendations @ [''Great job maintaining excellent wellness habits!'']
         else if wellness_score \<ge> 60
         then recommendations @
           [''You're on the right track - small improvements can make a big difference'']
         else recommendations @
           [''Focus on gradual improvements in sleep, exercise, and hydration''])"

definition healthy_ingredients :: "string list" where
  "healthy_ingredients =
     [''vegetables'', ''fruits'', ''whole grains'', ''lean protein'', ''legumes'']"

definition calculate_nutrition_score :: "string list \<Rightarrow> string \<Rightarrow> nat" where
  "calculate_nutrition_score ingredients dietary_restrictions =
     (let base_score = min (length ingredients * 10) 100;
          bonus = sum_list [5 :: nat. ingredient \<leftarrow> ingredients,
                    list_ex (\<lambda>healthy. str_in healthy (py_lower ingredient)) healthy_ingredients]
      in min 100 (base_score + bonus))"


section \<open>Progress aggregators\<close>

definition determine_education_level :: "int \<Rightarrow> real \<Rightarrow> string" where
  "determine_education_level activity_count avg_progress =
     (if activity_count = 0 then ''Beginner''
      else if activity_count < 5 then ''Explorer''
      else if activity_count < 10 then ''Learner''
      else if activity_count < 20 then ''Scholar''
      else ''Expert'')"

definition determine_health_status :: "real \<Rightarrow> string" where
  "determine_health_status avg_score =
     (if avg_score \<ge> 80 then ''Excellent''
      else if avg_score \<ge> 60 then ''Good''
      else if avg_score \<ge> 40 then ''Fair''
      else ''Needs Improvement'')"

section \<open>Properties\<close>

subsection \<open>Substring search\<close>

lemma starts_with_iff: "starts_with sub s \<longleftrightarrow> (\<exists>post. s = sub @ post)"
  by (induction sub s rule: starts_with.induct) auto

lemma str_in_iff: "str_in sub s \<longleftrightarrow> occurs_in sub s"
proof (induction s)
  case Nil
  show ?case
    by (auto simp: occurs_in_def)
next
  case (Cons c s)
  show ?case
  proof
    assume "str_in sub (c # s)"
    then consider "starts_with sub (c # s)" | "str_in sub s"
      by auto
    then show "occurs_in sub (c # s)"
    proof cases
      case 1
      then obtain post where "c # s = sub @ post"
        by (auto simp: starts_with_iff)
      then have "c # s = [] @ sub @ post"
        by simp
      then show ?thesis
        unfolding occurs_in_def by blast
    next
      case 2
      with Cons obtain pre post where "s = pre @ sub @ post"
        by (auto simp: occurs_in_def)
      then have "c # s = (c # pre) @ sub @ post"
        by simp
      then show ?thesis
        unfolding occurs_in_def by blast
    qed
  next
    assume "occurs_in sub (c # s)"
    then obtain pre post where eq: "c # s = pre @ sub @ post"
      by (auto simp: occurs_in_def)
    show "str_in sub (c # s)"
    proof (cases pre)
      case Nil
      with eq have "starts_with sub (c # s)"
        by (auto simp: starts_with_iff)
      then show ?thesis
        by simp
    next
      case (Cons a pre')
      with eq have "s = pre' @ sub @ post"
        by simp
      then have "occurs_in sub s"
        unfolding occurs_in_def by blast
      with Cons.IH show ?thesis
        by simp
    qed
  qed
qed

lemma count_comprehension:
  "sum_list [1 :: nat. w \<leftarrow> ws, Q w] = length (filter Q ws)"
  by (induction ws) simp_all

lemma hits_distinct:
  "distinct ws \<Longrightarrow> length (filter (\<lambda>w. str_in w t) ws) = keyword_hits ws t"
  by (simp add: keyword_hits_def str_in_iff distinct_length_filter Collect_conj_eq Int_commute
      set_filter [symmetric] distinct_card del: set_filter)

lemma distinct_keywords: "distinct positive_words" "distinct negative_words"
  by (simp_all add: positive_words_def negative_words_def)

lemma counts_are_hits:
  "sum_list [1 :: nat. word \<leftarrow> positive_words, str_in word t] = keyword_hits positive_words t"
  "sum_list [1 :: nat. word \<leftarrow> negative_words, str_in word t] = keyword_hits negative_words t"
  by (simp_all only: count_comprehension hits_distinct [OF distinct_keywords(1)]
      hits_distinct [OF distinct_keywords(2)])

lemma bonus_comprehension:
  "sum_list [5 :: nat. x \<leftarrow> xs, Q x] = 5 * length (filter Q xs)"
  by (induction xs) simp_all

lemma healthy_iff:
  "list_ex (\<lambda>healthy. str_in healthy t) healthy_ingredients \<longleftrightarrow>
     (\<exists>healthy \<in> {''vegetables'', ''fruits'', ''whole grains'', ''lean protein'', ''legumes''}.
        occurs_in healthy t)"
  by (simp add: healthy_ingredients_def str_in_iff)

subsection \<open>Rounding\<close>

lemma py_round_of_int: "py_round (of_int m) = m"
  by (simp add: py_round_def)

lemma py_round_cases:
  "py_round x = \<lfloor>x\<rfloor> \<or> py_round x = \<lfloor>x\<rfloor> + 1"
  by (simp add: py_round_def Let_def)

lemma py_round_lower: "\<lfloor>x\<rfloor> \<le> py_round x"
  using py_round_cases [of x] by auto

lemma py_round_upper: "py_round x \<le> \<lfloor>x\<rfloor> + 1"
  using py_round_cases [of x] by auto

lemma py_round_mono:
  assumes "x \<le> y"
  shows "py_round x \<le> py_round y"
proof (cases "\<lfloor>x\<rfloor> = \<lfloor>y\<rfloor>")
  case True
  with assms have "x - of_int \<lfloor>x\<rfloor> \<le> y - of_int \<lfloor>y\<rfloor>"
    by simp
  with True show ?thesis
    by (auto simp: py_round_def Let_def)
next
  case False
  with assms have "\<lfloor>x\<rfloor> < \<lfloor>y\<rfloor>"
    by (simp add: floor_mono order.strict_iff_order)
  then have "py_round x \<le> \<lfloor>y\<rfloor>"
    using py_round_upper [of x] by linarith
  then show ?thesis
    using py_round_lower [of y] by linarith
qed

lemma py_round_near: "\<bar>of_int (py_round x) - x\<bar> \<le> 1 / 2"
  unfolding py_round_def Let_def by (auto; linarith)

lemma py_round_uminus: "py_round (- x) = - py_round x"
proof (cases "x = of_int \<lfloor>x\<rfloor>")
  case True
  then obtain m :: int where "x = of_int m" ..
  then have "- x = of_int (- m)" by simp
  then show ?thesis
    unfolding \<open>x = of_int m\<close> by (simp only: py_round_of_int)
next
  case False
  then have fl: "\<lfloor>- x\<rfloor> = - \<lfloor>x\<rfloor> - 1"
    by linarith
  show ?thesis
    unfolding py_round_def Let_def fl by (auto; linarith?)
qed


lemma binexp_bounds:
  "0 < x \<Longrightarrow> 2 powi binexp x \<le> x \<and> x < 2 powi (binexp x + 1)"
proof (induction x rule: binexp.induct)
  case (1 x)
  show ?case
  proof (cases "2 \<le> x")
    case True
    with 1 have "2 powi binexp (x / 2) \<le> x / 2 \<and> x / 2 < 2 powi (binexp (x / 2) + 1)"
      by simp
    moreover from True 1 have "binexp x = binexp (x / 2) + 1"
      by (subst binexp.simps) simp
    ultimately show ?thesis
      by (simp add: power_int_add)
  next
    case False
    show ?thesis
    proof (cases "x < 1")
      case True
      with 1 False have "2 powi binexp (x * 2) \<le> x * 2 \<and> x * 2 < 2 powi (binexp (x * 2) + 1)"
        by simp
      moreover from True False 1 have "binexp x = binexp (x * 2) - 1"
        by (subst binexp.simps) simp
      ultimately show ?thesis
        by (simp add: power_int_diff power_int_add)
    next
      case ge: False
      with False 1 have "binexp x = 0"
        by (subst binexp.simps) simp
      with ge False show ?thesis
        by simp
    qed
  qed
qed

lemma binexp_mono:
  assumes "0 < x" and "x \<le> y"
  shows "binexp x \<le> binexp y"
proof -
  from assms have "0 < y"
    by simp
  have "2 powi binexp x \<le> x"
    using binexp_bounds [OF \<open>0 < x\<close>] by simp
  also have "x \<le> y"
    by fact
  also have "y < 2 powi (binexp y + 1)"
    using binexp_bounds [OF \<open>0 < y\<close>] by simp
  finally have "(2::real) powi binexp x < 2 powi (binexp y + 1)" .
  then have "binexp x < binexp y + 1"
    using power_int_increasing [of "binexp y + 1" "binexp x" "2::real"] by fastforce
  then show ?thesis
    by simp
qed


lemma quantum_uminus: "quantum (- x) = quantum x"
  by (simp add: quantum_def)

lemma fl_uminus: "fl (- x) = - fl x"
  by (simp add: fl_def quantum_uminus py_round_uminus)

lemma fl_nonneg: "0 \<le> x \<Longrightarrow> 0 \<le> fl x"
proof -
  assume "0 \<le> x"
  then have "py_round 0 \<le> py_round (x / 2 powi quantum x)"
    by (intro py_round_mono) simp
  then have "0 \<le> py_round (x / 2 powi quantum x)"
    using py_round_of_int [of 0] by simp
  then show ?thesis
    by (simp add: fl_def)
qed

lemma pow2_int: "0 \<le> n \<Longrightarrow> (2::real) powi n = of_int (2 ^ nat n)"
  by (simp add: power_int_def)

lemma fl_le_pow2:
  assumes "x \<le> 2 powi k" and "quantum x \<le> k"
  shows "fl x \<le> 2 powi k"
proof -
  let ?q = "quantum x"
  have "x / 2 powi ?q \<le> 2 powi k / 2 powi ?q"
    using assms(1) by (simp add: divide_right_mono)
  also have "\<dots> = 2 powi (k - ?q)"
    by (simp add: power_int_diff)
  also have "\<dots> = of_int (2 ^ nat (k - ?q))"
    using assms(2) by (simp add: pow2_int)
  finally have "py_round (x / 2 powi ?q) \<le> py_round (of_int (2 ^ nat (k - ?q)))"
    by (rule py_round_mono)
  then have "(of_int (py_round (x / 2 powi ?q)) :: real) \<le> of_int (2 ^ nat (k - ?q))"
    by (simp only: py_round_of_int of_int_le_iff)
  also have "\<dots> = 2 powi (k - ?q)"
    using assms(2) by (simp add: pow2_int)
  finally have "fl x \<le> 2 powi (k - ?q) * 2 powi ?q"
    unfolding fl_def by (simp add: mult_right_mono)
  also have "\<dots> = 2 powi k"
    by (simp flip: power_int_add)
  finally show ?thesis .
qed

lemma fl_ge_pow2:
  assumes "2 powi k \<le> y" and "quantum y \<le> k"
  shows "2 powi k \<le> fl y"
proof -
  let ?q = "quantum y"
  have "2 powi k = 2 powi (k - ?q) * (2::real) powi ?q"
    by (simp flip: power_int_add)
  have "(of_int (2 ^ nat (k - ?q)) :: real) = 2 powi (k - ?q)"
    using assms(2) by (simp add: pow2_int)
  also have "\<dots> = 2 powi k / 2 powi ?q"
    by (simp add: power_int_diff)
  also have "\<dots> \<le> y / 2 powi ?q"
    using assms(1) by (simp add: divide_right_mono)
  finally have "py_round (of_int (2 ^ nat (k - ?q))) \<le> py_round (y / 2 powi ?q)"
    by (rule py_round_mono)
  then have "(of_int (2 ^ nat (k - ?q)) :: real) \<le> of_int (py_round (y / 2 powi ?q))"
    by (simp only: py_round_of_int of_int_le_iff)
  then have "2 powi (k - ?q) \<le> (of_int (py_round (y / 2 powi ?q)) :: real)"
    using assms(2) by (simp add: pow2_int)
  then have "2 powi (k - ?q) * 2 powi ?q \<le> fl y"
    unfolding fl_def by (simp add: mult_right_mono)
  then show ?thesis
    by (simp flip: power_int_add)
qed

lemma fl_mono_pos:
  assumes "0 < x" and "x \<le> y"
  shows "fl x \<le> fl y"
proof -
  from assms have "0 < y"
    by simp
  have le: "binexp x \<le> binexp y"
    using assms by (rule binexp_mono)
  have qx: "quantum x = max (binexp x - 52) (- 1074)"
    using \<open>0 < x\<close> by (simp add: quantum_def)
  have qy: "quantum y = max (binexp y - 52) (- 1074)"
    using \<open>0 < y\<close> by (simp add: quantum_def)
  show ?thesis
  proof (cases "quantum x = quantum y")
    case True
    have "x / 2 powi quantum y \<le> y / 2 powi quantum y"
      using assms(2) by (simp add: divide_right_mono)
    then have "py_round (x / 2 powi quantum y) \<le> py_round (y / 2 powi quantum y)"
      by (rule py_round_mono)
    then show ?thesis
      unfolding fl_def True by (simp add: mult_right_mono)
  next
    case False
    with le qx qy have lt: "quantum x < quantum y" and "quantum y = binexp y - 52"
      and "binexp x + 1 \<le> binexp y"
      by auto
    have "x \<le> 2 powi (binexp x + 1)"
      using binexp_bounds [OF \<open>0 < x\<close>] by simp
    also have "\<dots> \<le> 2 powi binexp y"
      using \<open>binexp x + 1 \<le> binexp y\<close> by (simp add: power_int_increasing)
    finally have "fl x \<le> 2 powi binexp y"
      using lt \<open>quantum y = binexp y - 52\<close> by (intro fl_le_pow2) simp_all
    also have "\<dots> \<le> fl y"
      using binexp_bounds [OF \<open>0 < y\<close>] \<open>quantum y = binexp y - 52\<close>
      by (intro fl_ge_pow2) simp_all
    finally show ?thesis .
  qed
qed

lemma fl_mono:
  assumes "x \<le> y"
  shows "fl x \<le> fl y"
proof -
  consider "0 < x" | "x \<le> 0" "0 \<le> y" | "y < 0"
    by linarith
  then show ?thesis
  proof cases
    case 1
    then show ?thesis
      using assms by (rule fl_mono_pos)
  next
    case 2
    then have "0 \<le> fl (- x)" and "0 \<le> fl y"
      by (simp_all add: fl_nonneg)
    then show ?thesis
      by (simp add: fl_uminus)
  next
    case 3
    with assms have "fl (- y) \<le> fl (- x)"
      by (intro fl_mono_pos) simp_all
    then show ?thesis
      by (simp add: fl_uminus)
  qed
qed

lemma pow2_less_imp: "(2::real) powi a < 2 powi b \<Longrightarrow> a < b"
  using power_int_increasing [of b a "2::real"] by fastforce

lemma binexp_less:
  assumes "0 < y" and "y < 2 powi k"
  shows "binexp y < k"
proof -
  have "2 powi binexp y \<le> y"
    using binexp_bounds [OF assms(1)] by simp
  also note assms(2)
  finally show ?thesis
    by (rule pow2_less_imp)
qed

lemma binexp_pow2: "binexp (2 powi k) = k"
proof -
  have pos: "(0::real) < 2 powi k"
    by simp
  have "(2::real) powi binexp (2 powi k) \<le> 2 powi k"
    and "(2::real) powi k < 2 powi (binexp (2 powi k) + 1)"
    using binexp_bounds [OF pos] by simp_all
  then have "binexp (2 powi k) < k + 1" and "k < binexp (2 powi k) + 1"
    using power_int_strict_increasing [of "k" "binexp (2 powi k)" "2::real"]
    by (fastforce, intro pow2_less_imp)
  then show ?thesis
    by simp
qed

lemma fl_zero: "fl 0 = 0"
  using py_round_of_int [of 0] by (simp add: fl_def)

lemma fl_exact:
  assumes "y = of_int m * 2 powi q" and "quantum y \<le> q"
  shows "fl y = y"
proof -
  let ?q' = "quantum y"
  have split: "(2::real) powi q = 2 powi (q - ?q') * 2 powi ?q'"
    by (simp flip: power_int_add)
  have "real_of_int m * 2 powi q / 2 powi ?q' = of_int m * 2 powi (q - ?q')"
    by (simp add: power_int_diff)
  then have "y / 2 powi ?q' = of_int m * 2 powi (q - ?q')"
    by (simp only: assms(1) [symmetric])
  also have "\<dots> = of_int (m * 2 ^ nat (q - ?q'))"
    using assms(2) by (simp add: pow2_int)
  finally have "py_round (y / 2 powi ?q') = m * 2 ^ nat (q - ?q')"
    by (simp only: py_round_of_int)
  then have "fl y = of_int (m * 2 ^ nat (q - ?q')) * 2 powi ?q'"
    by (simp only: fl_def)
  also have "\<dots> = of_int m * (2 powi (q - ?q') * 2 powi ?q')"
    using assms(2) by (simp add: pow2_int)
  also have "\<dots> = of_int m * 2 powi q"
    by (simp only: split [symmetric])
  also have "\<dots> = y"
    by (rule assms(1) [symmetric])
  finally show ?thesis .
qed

lemma fl_pow2:
  assumes "- 1074 \<le> k"
  shows "fl (2 powi k) = 2 powi k"
proof (rule fl_exact)
  show "(2::real) powi k = of_int 1 * 2 powi k"
    by simp
  show "quantum (2 powi k) \<le> k"
    using assms by (simp add: quantum_def binexp_pow2)
qed

lemma fl_idem_pos:
  assumes "0 < x"
  shows "fl (fl x) = fl x"
proof -
  let ?q = "quantum x"
  have q: "binexp x - 52 \<le> ?q" "- 1074 \<le> ?q"
    using assms by (simp_all add: quantum_def)
  have "x \<le> 2 powi (binexp x + 1)"
    using binexp_bounds [OF assms] by simp
  also have "\<dots> \<le> 2 powi (?q + 53)"
    using q by (intro power_int_increasing) simp_all
  finally have le: "fl x \<le> 2 powi (?q + 53)"
    by (rule fl_le_pow2) simp
  have "0 \<le> fl x"
    using assms by (simp add: fl_nonneg)
  then consider "fl x = 0" | "fl x = 2 powi (?q + 53)" | "0 < fl x" "fl x < 2 powi (?q + 53)"
    using le by fastforce
  then show ?thesis
  proof cases
    case 1
    then show ?thesis
      by (simp add: fl_zero)
  next
    case 2
    then show ?thesis
      using q by (simp add: fl_pow2)
  next
    case 3
    then have "binexp (fl x) < ?q + 53"
      by (rule binexp_less)
    with 3 q have "quantum (fl x) \<le> ?q"
      by (simp add: quantum_def)
    with fl_def [of x] show ?thesis
      by (rule fl_exact)
  qed
qed

lemma fl_idem: "fl (fl x) = fl x"
proof -
  consider "0 < x" | "x = 0" | "0 < - x"
    by linarith
  then show ?thesis
  proof cases
    case 1
    then show ?thesis
      by (rule fl_idem_pos)
  next
    case 2
    then show ?thesis
      by (simp add: fl_zero)
  next
    case 3
    then have "fl (fl (- x)) = fl (- x)"
      by (rule fl_idem_pos)
    then show ?thesis
      by (simp add: fl_uminus)
  qed
qed

text \<open>\<open>fl x\<close> is within half a unit in the last place of \<open>x\<close>.\<close>

lemma fl_error: "\<bar>fl x - x\<bar> \<le> 2 powi quantum x / 2"
proof -
  let ?u = "(2::real) powi quantum x"
  have pos: "0 < ?u"
    by simp
  have "fl x - x = (of_int (py_round (x / ?u)) - x / ?u) * ?u"
    by (simp add: fl_def left_diff_distrib)
  then have "\<bar>fl x - x\<bar> = \<bar>of_int (py_round (x / ?u)) - x / ?u\<bar> * ?u"
    by (simp only: abs_mult abs_of_pos [OF pos])
  also have "\<dots> \<le> 1 / 2 * ?u"
    using py_round_near [of "x / ?u"] pos by (intro mult_right_mono) simp_all
  finally show ?thesis
    by simp
qed

subsection \<open>Float arithmetic on the constants of the program\<close>

text \<open>Each fact is one correctly rounded operation, evaluated from the definition of \<open>fl\<close>.\<close>

lemma fl_small_ints:
  "fl 1 = 1" "fl 20 = 20" "fl 35 = 35" "fl 60 = 60" "fl 75 = 75" "fl 85 = 85" "fl 100 = 100"
  "fl 150 = 150" "fl 175 = 175" "fl 200 = 200" "fl 300 = 300"
  by code_simp+

lemma fl_dyadic:
  "fl (1 / 2) = 1 / 2" "fl (3 / 4) = 3 / 4" "fl (3 / 2) = 3 / 2" "fl (5 / 8) = 5 / 8"
  "fl (7 / 8) = 7 / 8" "fl (125 / 2) = 125 / 2" "fl (175 / 2) = 175 / 2"
  "fl (475 / 2) = 475 / 2"
  by code_simp+

text \<open>The float literals \<open>0.7\<close> and \<open>0.6\<close>, and the steps of the mood score on them.\<close>

lemma fl_literals:
  "fl (7 / 10) = 3152519739159347 / 4503599627370496"
  "fl (3 / 5) = 5404319552844595 / 9007199254740992"
  "fl (3152519739159347 / 4503599627370496) = 3152519739159347 / 4503599627370496"
  "fl (5404319552844595 / 9007199254740992) = 5404319552844595 / 9007199254740992"
  by code_simp+

lemma fl_mood_steps:
  "fl (900719925474099 / 4503599627370496) = 900719925474099 / 4503599627370496"
  "fl (4503599627370495 / 1125899906842624) = 4503599627370495 / 1125899906842624"
  "fl (100205091708993535 / 1125899906842624) = 89"
  "fl (43910096366862335 / 1125899906842624) = 39"
  "fl (900719925474099 / 9007199254740992) = 900719925474099 / 9007199254740992"
  "fl (4503599627370495 / 2251799813685248) = 4503599627370495 / 2251799813685248"
  "fl (139611588448485375 / 2251799813685248) = 62"
  "fl (195906583790616575 / 2251799813685248) = 87"
  by code_simp+

lemma fl_wellness_steps:
  "fl (100 / 3) = 4691249611844267 / 140737488355328"
  "fl (475 / 6) = 5570858914065067 / 70368744177664"
  "fl (1 / 3) = 6004799503160661 / 18014398509481984"
  "fl (150119987579016525 / 4503599627370496) = 2345624805922133 / 70368744177664"
  "fl (8502889921467733 / 70368744177664) = 8502889921467733 / 70368744177664"
  "fl (15539764339234133 / 70368744177664) = 3884941084808533 / 17592186044416"
  "fl (3884941084808533 / 52776558133248) = 5179921446411377 / 70368744177664"
  by code_simp+


lemmas fl_eval = fl_zero fl_uminus fl_small_ints fl_dyadic fl_literals fl_mood_steps
  fl_wellness_steps

subsection \<open>Score calculators\<close>

lemma base_score_cases:
  "py_get base_scores sentiment 60 =
     (if sentiment = ''POSITIVE'' then 85 else if sentiment = ''NEGATIVE'' then 35 else 60)"
  by (simp add: py_get_def base_scores_def)

lemma calculate_mood_score_unfold:
  "calculate_mood_score sentiment confidence =
     max 10 (min 100 (fl (of_int (py_get base_scores sentiment 60)
                          + fl (fl (fl confidence - 1 / 2) * 20))))"
  by (simp add: calculate_mood_score_def float_add_def float_mul_def float_sub_def fl_idem
      fl_small_ints fl_dyadic base_score_cases)

lemma calculate_mood_score_mono:
  assumes "c1 \<le> c2"
  shows "calculate_mood_score sentiment c1 \<le> calculate_mood_score sentiment c2"
proof -
  let ?b = "real_of_int (py_get base_scores sentiment 60)"
  from assms have "fl c1 - 1 / 2 \<le> fl c2 - 1 / 2"
    by (simp add: fl_mono)
  then have "fl (fl c1 - 1 / 2) * 20 \<le> fl (fl c2 - 1 / 2) * 20"
    by (simp add: fl_mono)
  then have "?b + fl (fl (fl c1 - 1 / 2) * 20) \<le> ?b + fl (fl (fl c2 - 1 / 2) * 20)"
    by (simp add: fl_mono)
  then have "fl (?b + fl (fl (fl c1 - 1 / 2) * 20)) \<le> fl (?b + fl (fl (fl c2 - 1 / 2) * 20))"
    by (rule fl_mono)
  then show ?thesis
    unfolding calculate_mood_score_unfold by (intro max.mono min.mono order.refl)
qed

lemma mood_score_values:
  "calculate_mood_score ''POSITIVE'' (fl (7 / 10)) = 89"
  "calculate_mood_score ''NEGATIVE'' (fl (7 / 10)) = 39"
  "calculate_mood_score ''NEUTRAL'' (fl (6 / 10)) = 62"
  "calculate_mood_score ''POSITIVE'' (fl (6 / 10)) = 87"
  by (simp_all add: calculate_mood_score_unfold base_score_cases fl_eval)

subsection \<open>The wellness calculator\<close>

lemma fl_le_pow:
  assumes "- 1074 \<le> k" and "x \<le> 2 powi k"
  shows "fl x \<le> 2 powi k"
  using fl_mono [OF assms(2)] fl_pow2 [OF assms(1)] by simp

lemma fl_ge_neg_pow:
  assumes "- 1074 \<le> k" and "- (2 powi k) \<le> x"
  shows "- (2 powi k) \<le> fl x"
  using fl_mono [OF assms(2)] fl_pow2 [OF assms(1)] by (simp add: fl_uminus)




lemma py_truediv_Inl: "py_truediv a b = Inl err \<Longrightarrow> err = OverflowError"
  by (auto simp: py_truediv_def Let_def split: if_splits)




























subsection \<open>Classifier output\<close>

lemma analyze_sentiment_range:
  "analyze_sentiment t = (''POSITIVE'', fl (7 / 10))
   \<or> analyze_sentiment t = (''NEUTRAL'', fl (6 / 10))
   \<or> analyze_sentiment t = (''NEGATIVE'', fl (7 / 10))"
  by (simp add: analyze_sentiment_def Let_def del: divide_le_eq_numeral1 divide_less_eq_numeral1)




section \<open>The claims\<close>

subsection \<open>Sentiment classifier\<close>

text \<open>
  Claim C1. For every text the classifier lower-cases it, takes \<open>P\<close> and \<open>N\<close> as the
  numbers of positive and of negative keywords that occur somewhere in the folded text,
  and answers POSITIVE with confidence 0.7 when \<open>P > N\<close>, NEGATIVE with 0.7 when
  \<open>N > P\<close> and NEUTRAL with 0.6 otherwise (\<open>classify_spec\<close>). It is total: the result is
  always one of these three pairs, and the empty text gives NEUTRAL with 0.6. The
  confidences are the floats written \<open>0.7\<close> and \<open>0.6\<close> in the program.
\<close>

theorem analyze_sentiment_classifies:
  "analyze_sentiment text = classify_spec text
   \<and> analyze_sentiment text \<in>
       {(''POSITIVE'', fl (7 / 10)), (''NEGATIVE'', fl (7 / 10)), (''NEUTRAL'', fl (6 / 10))}
   \<and> analyze_sentiment [] = (''NEUTRAL'', fl (6 / 10))
   \<and> \<bar>fl (7 / 10) - 7 / 10\<bar> < 1 / 10 ^ 16 \<and> \<bar>fl (6 / 10) - 6 / 10\<bar> < 1 / 10 ^ 16"
proof -
  have eq: "analyze_sentiment t = classify_spec t" for t
    by (simp only: analyze_sentiment_def classify_spec_def counts_are_hits Let_def)
  have "keyword_hits positive_words [] = 0" and "keyword_hits negative_words [] = 0"
    by (simp_all add: keyword_hits_def occurs_in_def positive_words_def negative_words_def)
  then have empty: "classify_spec [] = (''NEUTRAL'', fl (6 / 10))"
    by (simp add: classify_spec_def py_lower_def)
  have range: "classify_spec text \<in>
       {(''POSITIVE'', fl (7 / 10)), (''NEGATIVE'', fl (7 / 10)), (''NEUTRAL'', fl (6 / 10))}"
    by (simp add: classify_spec_def Let_def)
  have "fl (7 / 10) = 3152519739159347 / 4503599627370496"
    and "fl (6 / 10) = 5404319552844595 / 9007199254740992"
    by code_simp+
  then have "\<bar>fl (7 / 10) - 7 / 10\<bar> < 1 / 10 ^ 16" and "\<bar>fl (6 / 10) - 6 / 10\<bar> < 1 / 10 ^ 16"
    by simp_all
  with eq empty range show ?thesis
    by simp
qed

theorem analyze_sentiment_witness:
  "keyword_hits positive_words (py_lower ''So HAPPY and excited, though a bit tired'') = 2
   \<and> keyword_hits negative_words (py_lower ''So HAPPY and excited, though a bit tired'') = 1
   \<and> analyze_sentiment ''So HAPPY and excited, though a bit tired'' = (''POSITIVE'', fl (7 / 10))
   \<and> analyze_sentiment ''he retired'' = (''NEGATIVE'', fl (7 / 10))
   \<and> analyze_sentiment ''good but bad'' = (''NEUTRAL'', fl (6 / 10))"
proof -
  let ?t = "py_lower ''So HAPPY and excited, though a bit tired''"
  have "length (filter (\<lambda>w. str_in w ?t) positive_words) = 2"
    and "length (filter (\<lambda>w. str_in w ?t) negative_words) = 1"
    by code_simp+
  then have P: "keyword_hits positive_words ?t = 2" and N: "keyword_hits negative_words ?t = 1"
    by (simp_all only: hits_distinct [OF distinct_keywords(1)]
        hits_distinct [OF distinct_keywords(2)])
  let ?r = "py_lower ''he retired''"
  have "length (filter (\<lambda>w. str_in w ?r) positive_words) = 0"
    and "length (filter (\<lambda>w. str_in w ?r) negative_words) = 1"
    by code_simp+
  then have P': "keyword_hits positive_words ?r = 0" and N': "keyword_hits negative_words ?r = 1"
    by (simp_all only: hits_distinct [OF distinct_keywords(1)]
        hits_distinct [OF distinct_keywords(2)])
  let ?u = "py_lower ''good but bad''"
  have "length (filter (\<lambda>w. str_in w ?u) positive_words) = 1"
    and "length (filter (\<lambda>w. str_in w ?u) negative_words) = 1"
    by code_simp+
  then have P'': "keyword_hits positive_words ?u = 1" and N'': "keyword_hits negative_words ?u = 1"
    by (simp_all only: hits_distinct [OF distinct_keywords(1)]
        hits_distinct [OF distinct_keywords(2)])
  show ?thesis
    using analyze_sentiment_classifies [of "''So HAPPY and excited, though a bit tired''"]
      analyze_sentiment_classifies [of "''he retired''"]
      analyze_sentiment_classifies [of "''good but bad''"]
    by (simp add: classify_spec_def P N P' N' P'' N'')
qed

subsection \<open>Recommendation generators\<close>

text \<open>
  Claim C9. The mental-health recommendations are a fixed ordered list for each label:
  three strings for POSITIVE, four for NEGATIVE, four for NEUTRAL; any other label gets
  the NEUTRAL list. The lookup never fails and the result is never empty.
\<close>

theorem generate_mental_health_recommendations_table:
  "generate_mental_health_recommendations ''POSITIVE'' confidence =
     Inr [''Keep up the positive mindset with regular exercise and social connections'',
          ''Practice gratitude and maintain your current healthy habits'',
          ''Consider sharing your positivity with others who might need support'']
   \<and> generate_mental_health_recommendations ''NEGATIVE'' confidence =
     Inr [''Consider talking to a trusted friend, family member, or mental health professional'',
          ''Try relaxation techniques like deep breathing or meditation'',
          ''Engage in physical activity, even a short walk can help improve mood'',
          ''Ensure you're getting adequate sleep and nutrition'']
   \<and> generate_mental_health_recommendations ''NEUTRAL'' confidence =
     Inr [''Engage in activities that bring you joy and fulfillment'',
          ''Connect with friends and family for social support'',
          ''Try mindfulness or meditation practices'',
          ''Consider exploring new hobbies or interests'']
   \<and> (sentiment \<noteq> ''POSITIVE'' \<and> sentiment \<noteq> ''NEGATIVE'' \<and> sentiment \<noteq> ''NEUTRAL'' \<longrightarrow>
        generate_mental_health_recommendations sentiment confidence =
        generate_mental_health_recommendations ''NEUTRAL'' confidence)
   \<and> (\<exists>recs. generate_mental_health_recommendations sentiment confidence = Inr recs
          \<and> recs \<noteq> [] \<and> (length recs = 3 \<or> length recs = 4))"
  by (simp add: generate_mental_health_recommendations_def recommendations_table_def
      py_getitem_def py_get_def)

theorem generate_mental_health_recommendations_witness:
  "generate_mental_health_recommendations ''MIXED'' (1 / 2) =
     Inr [''Engage in activities that bring you joy and fulfillment'',
          ''Connect with friends and family for social support'',
          ''Try mindfulness or meditation practices'',
          ''Consider exploring new hobbies or interests'']"
  using generate_mental_health_recommendations_table [of "1 / 2" "''MIXED''"]
  by simp

text \<open>
  Claim C8. The wellness recommendations consist of a sleep tip exactly when the sleep
  score is below 70, an exercise tip exactly when the exercise score is below 70, a
  hydration tip exactly when the water score is below 70, in this order, followed by
  exactly one closing remark chosen by the overall score (at least 80, at least 60,
  otherwise). The list therefore has between one and four items, which is within the
  claimed bound of zero to four.
\<close>

theorem generate_wellness_recommendations_shape:
  "generate_wellness_recommendations wellness_score wd =
     (if sleep_score wd < 70 then [''Aim for 7-9 hours of quality sleep each night''] else [])
     @ (if exercise_score wd < 70
        then [''Try to get at least 30 minutes of physical activity daily''] else [])
     @ (if water_score wd < 70 then [''Increase water intake to 8 glasses per day''] else [])
     @ [if 80 \<le> wellness_score then ''Great job maintaining excellent wellness habits!''
        else if 60 \<le> wellness_score
        then ''You're on the right track - small improvements can make a big difference''
        else ''Focus on gradual improvements in sleep, exercise, and hydration'']
   \<and> (''Aim for 7-9 hours of quality sleep each night''
        \<in> set (generate_wellness_recommendations wellness_score wd) \<longleftrightarrow> sleep_score wd < 70)
   \<and> (''Try to get at least 30 minutes of physical activity daily''
        \<in> set (generate_wellness_recommendations wellness_score wd) \<longleftrightarrow> exercise_score wd < 70)
   \<and> (''Increase water intake to 8 glasses per day''
        \<in> set (generate_wellness_recommendations wellness_score wd) \<longleftrightarrow> water_score wd < 70)
   \<and> 1 \<le> length (generate_wellness_recommendations wellness_score wd)
   \<and> length (generate_wellness_recommendations wellness_score wd) \<le> 4"
proof -
  let ?tips =
    "(if sleep_score wd < 70 then [''Aim for 7-9 hours of quality sleep each night''] else [])
     @ (if exercise_score wd < 70
        then [''Try to get at least 30 minutes of physical activity daily''] else [])
     @ (if water_score wd < 70 then [''Increase water intake to 8 glasses per day''] else [])"
  let ?closing =
    "if 80 \<le> wellness_score then ''Great job maintaining excellent wellness habits!''
     else if 60 \<le> wellness_score
     then ''You're on the right track - small improvements can make a big difference''
     else ''Focus on gradual improvements in sleep, exercise, and hydration''"
  have shape: "generate_wellness_recommendations wellness_score wd = ?tips @ [?closing]"
    by (simp add: generate_wellness_recommendations_def)
  have "length ?tips \<le> 3"
    by simp
  then have len: "1 \<le> length (?tips @ [?closing])" "length (?tips @ [?closing]) \<le> 4"
    by simp_all
  have mem: "''Aim for 7-9 hours of quality sleep each night'' \<in> set (?tips @ [?closing])
      \<longleftrightarrow> sleep_score wd < 70"
    "''Try to get at least 30 minutes of physical activity daily'' \<in> set (?tips @ [?closing])
      \<longleftrightarrow> exercise_score wd < 70"
    "''Increase water intake to 8 glasses per day'' \<in> set (?tips @ [?closing])
      \<longleftrightarrow> water_score wd < 70"
    by simp_all
  from shape len mem show ?thesis
    by (simp only: append_assoc simp_thms)
qed

theorem generate_wellness_recommendations_witness:
  "generate_wellness_recommendations 67
     \<lparr>sleep_hours = 4, exercise_minutes = 30, water_glasses = 8, sleep_score = 50,
      exercise_score = 100, water_score = 100, overall_score = 83\<rparr> =
     [''Aim for 7-9 hours of quality sleep each night'',
      ''You're on the right track - small improvements can make a big difference'']
   \<and> generate_wellness_recommendations 100
     \<lparr>sleep_hours = 8, exercise_minutes = 30, water_glasses = 8, sleep_score = 100,
      exercise_score = 100, water_score = 100, overall_score = 100\<rparr> =
     [''Great job maintaining excellent wellness habits!'']
   \<and> generate_wellness_recommendations 0
     \<lparr>sleep_hours = 0, exercise_minutes = 0, water_glasses = 0, sleep_score = 0,
      exercise_score = 0, water_score = 0, overall_score = 0\<rparr> =
     [''Aim for 7-9 hours of quality sleep each night'',
      ''Try to get at least 30 minutes of physical activity daily'',
      ''Increase water intake to 8 glasses per day'',
      ''Focus on gradual improvements in sleep, exercise, and hydration'']"
  using generate_wellness_recommendations_shape [of 67
     "\<lparr>sleep_hours = 4, exercise_minutes = 30, water_glasses = 8, sleep_score = 50,
      exercise_score = 100, water_score = 100, overall_score = 83\<rparr>"]
    generate_wellness_recommendations_shape [of 100
     "\<lparr>sleep_hours = 8, exercise_minutes = 30, water_glasses = 8, sleep_score = 100,
      exercise_score = 100, water_score = 100, overall_score = 100\<rparr>"]
    generate_wellness_recommendations_shape [of 0
     "\<lparr>sleep_hours = 0, exercise_minutes = 0, water_glasses = 0, sleep_score = 0,
      exercise_score = 0, water_score = 0, overall_score = 0\<rparr>"]
  by simp

subsection \<open>Nutrition score\<close>

text \<open>
  Claim C4. The nutrition score is \<open>min (min (count * 10) 100 + 5 * healthy) 100\<close>, where
  \<open>healthy\<close> is the number of ingredients whose lower-cased text contains one of the five
  healthy keywords. The dietary restriction has no effect, and the ingredients
  vegetables and chicken score 25.
\<close>

theorem calculate_nutrition_score_formula:
  "calculate_nutrition_score ingredients dietary_restrictions =
     min (min (length ingredients * 10) 100
          + 5 * length (filter (\<lambda>ingredient.
                \<exists>healthy \<in> {''vegetables'', ''fruits'', ''whole grains'', ''lean protein'',
                              ''legumes''}. occurs_in healthy (py_lower ingredient)) ingredients))
         100
   \<and> calculate_nutrition_score ingredients dietary_restrictions =
     calculate_nutrition_score ingredients dietary_restrictions'
   \<and> calculate_nutrition_score [''vegetables'', ''chicken''] ''none'' = 25"
proof -
  have "calculate_nutrition_score [''vegetables'', ''chicken''] ''none'' = 25"
    by code_simp
  then show ?thesis
    by (simp add: calculate_nutrition_score_def bonus_comprehension healthy_iff min.commute)
qed

theorem calculate_nutrition_score_witness:
  "calculate_nutrition_score [''Fresh Vegetables'', ''rice'', ''Legumes (beans)''] ''vegan'' = 40
   \<and> calculate_nutrition_score [''Fresh Vegetables'', ''rice'', ''Legumes (beans)''] ''vegan'' =
     calculate_nutrition_score [''Fresh Vegetables'', ''rice'', ''Legumes (beans)''] ''none''"
proof -
  have "calculate_nutrition_score [''Fresh Vegetables'', ''rice'', ''Legumes (beans)''] ''vegan'' = 40"
    by code_simp
  then show ?thesis
    using calculate_nutrition_score_formula
      [of "[''Fresh Vegetables'', ''rice'', ''Legumes (beans)'']" "''vegan''" "''none''"]
    by simp
qed

subsection \<open>Score calculators\<close>




text \<open>
  Claim C5. For a fixed sentiment label the mood score does not decrease when the
  confidence grows, it always lies between 10 and 100, and it is
  \<open>clamp (base + (confidence - 0.5) * 20) 10 100\<close> in float arithmetic, with base 85 for
  POSITIVE, 60 for NEUTRAL and 35 for NEGATIVE (and 60 for any other label).
\<close>

theorem calculate_mood_score_monotone:
  "(c1 \<le> c2 \<longrightarrow> calculate_mood_score sentiment c1 \<le> calculate_mood_score sentiment c2)
   \<and> 10 \<le> calculate_mood_score sentiment confidence
   \<and> calculate_mood_score sentiment confidence \<le> 100
   \<and> calculate_mood_score sentiment confidence =
       max 10 (min 100
         (fl ((if sentiment = ''POSITIVE'' then 85 else if sentiment = ''NEUTRAL'' then 60
               else if sentiment = ''NEGATIVE'' then 35 else 60)
              + fl (fl (fl confidence - 5 / 10) * 20))))"
proof -
  have "calculate_mood_score sentiment confidence =
       max 10 (min 100
         (fl ((if sentiment = ''POSITIVE'' then 85 else if sentiment = ''NEUTRAL'' then 60
               else if sentiment = ''NEGATIVE'' then 35 else 60)
              + fl (fl (fl confidence - 5 / 10) * 20))))"
    by (simp add: calculate_mood_score_unfold base_score_cases)
  moreover have "10 \<le> calculate_mood_score sentiment confidence"
    and "calculate_mood_score sentiment confidence \<le> 100"
    by (simp_all add: calculate_mood_score_unfold)
  ultimately show ?thesis
    using calculate_mood_score_mono [of c1 c2 sentiment] by blast
qed

theorem calculate_mood_score_witness:
  "fl (6 / 10) \<le> fl (7 / 10)
   \<and> calculate_mood_score ''POSITIVE'' (fl (6 / 10)) \<le> calculate_mood_score ''POSITIVE'' (fl (7 / 10))
   \<and> calculate_mood_score ''POSITIVE'' (fl (6 / 10)) = 87
   \<and> calculate_mood_score ''POSITIVE'' (fl (7 / 10)) = 89"
proof -
  have "fl (6 / 10) \<le> fl (7 / 10)"
    by (simp add: fl_literals)
  then show ?thesis
    using calculate_mood_score_monotone [of "fl (6 / 10)" "fl (7 / 10)" "''POSITIVE''" 0]
      mood_score_values(1,4)
    by blast
qed




text \<open>
  Claim C10. The mood score computed from the output of the classifier is 89 when the
  text classifies POSITIVE, 62 when NEUTRAL and 39 when NEGATIVE, and these are the only
  cases: the float arithmetic on the confidences 0.7 and 0.6 gives exactly these values.
\<close>

theorem mood_score_of_classifier:
  "(fst (analyze_sentiment text) = ''POSITIVE''
      \<and> calculate_mood_score (fst (analyze_sentiment text)) (snd (analyze_sentiment text)) = 89)
   \<or> (fst (analyze_sentiment text) = ''NEUTRAL''
      \<and> calculate_mood_score (fst (analyze_sentiment text)) (snd (analyze_sentiment text)) = 62)
   \<or> (fst (analyze_sentiment text) = ''NEGATIVE''
      \<and> calculate_mood_score (fst (analyze_sentiment text)) (snd (analyze_sentiment text)) = 39)"
  using analyze_sentiment_range [of "text"] mood_score_values(1-3)
  by (elim disjE) (simp_all only: fst_conv snd_conv simp_thms)

theorem mood_score_of_classifier_witness:
  "calculate_mood_score (fst (analyze_sentiment ''I feel great''))
     (snd (analyze_sentiment ''I feel great'')) = 89
   \<and> calculate_mood_score (fst (analyze_sentiment ''the sky is blue''))
     (snd (analyze_sentiment ''the sky is blue'')) = 62
   \<and> calculate_mood_score (fst (analyze_sentiment ''so Tired and worried''))
     (snd (analyze_sentiment ''so Tired and worried'')) = 39"
proof -
  have "fst (analyze_sentiment ''I feel great'') = ''POSITIVE''"
    and "fst (analyze_sentiment ''the sky is blue'') = ''NEUTRAL''"
    and "fst (analyze_sentiment ''so Tired and worried'') = ''NEGATIVE''"
    by code_simp+
  then show ?thesis
    using mood_score_of_classifier [of "''I feel great''"]
      mood_score_of_classifier [of "''the sky is blue''"]
      mood_score_of_classifier [of "''so Tired and worried''"]
    by simp
qed

subsection \<open>Progress aggregators\<close>

text \<open>
  Claim C6. For a non-negative activity count the education level depends on the count
  alone: 0 is Beginner, 1 to 4 Explorer, 5 to 9 Learner, 10 to 19 Scholar, 20 and more
  Expert. The average progress never changes the label; 4 is Explorer and 5 is Learner.
\<close>


theorem determine_education_level_thresholds:
  assumes "0 \<le> activity_count"
  shows "determine_education_level activity_count avg_progress =
           (if activity_count = 0 then ''Beginner''
            else if 1 \<le> activity_count \<and> activity_count \<le> 4 then ''Explorer''
            else if 5 \<le> activity_count \<and> activity_count \<le> 9 then ''Learner''
            else if 10 \<le> activity_count \<and> activity_count \<le> 19 then ''Scholar''
            else ''Expert'')
         \<and> (20 \<le> activity_count \<longrightarrow>
              determine_education_level activity_count avg_progress = ''Expert'')
         \<and> determine_education_level activity_count avg_progress =
             determine_education_level activity_count avg_progress'
         \<and> determine_education_level 4 avg_progress = ''Explorer''
         \<and> determine_education_level 5 avg_progress = ''Learner''"
  using assms by (auto simp: determine_education_level_def)

theorem determine_education_level_witness:
  "determine_education_level 0 0 = ''Beginner''
   \<and> determine_education_level 3 (1 / 2) = ''Explorer''
   \<and> determine_education_level 7 50 = ''Learner''
   \<and> determine_education_level 12 80 = ''Scholar''
   \<and> determine_education_level 20 100 = ''Expert''
   \<and> determine_education_level 20 100 = determine_education_level 20 0"
  using determine_education_level_thresholds [of 0 0 0]
    determine_education_level_thresholds [of 3 "1 / 2" 0]
    determine_education_level_thresholds [of 7 50 0]
    determine_education_level_thresholds [of 12 80 0]
    determine_education_level_thresholds [of 20 100 0]
  by auto

text \<open>
  Claim C7. The health status of an average wellness score is Excellent from 80 on, Good
  from 60 up to but excluding 80, Fair from 40 up to but excluding 60, and Needs
  Improvement below 40. Every boundary belongs to the upper class: 80 is Excellent, and
  79.99 (the real number as well as the float nearest to it) is Good.
\<close>

theorem determine_health_status_thresholds:
  "(80 \<le> avg_score \<longrightarrow> determine_health_status avg_score = ''Excellent'')
   \<and> (60 \<le> avg_score \<and> avg_score < 80 \<longrightarrow> determine_health_status avg_score = ''Good'')
   \<and> (40 \<le> avg_score \<and> avg_score < 60 \<longrightarrow> determine_health_status avg_score = ''Fair'')
   \<and> (avg_score < 40 \<longrightarrow> determine_health_status avg_score = ''Needs Improvement'')
   \<and> determine_health_status 80 = ''Excellent''
   \<and> determine_health_status (fl (7999 / 100)) = ''Good''
   \<and> determine_health_status (7999 / 100) = ''Good''
   \<and> determine_health_status 60 = ''Good''
   \<and> determine_health_status 40 = ''Fair''"
proof -
  have "fl (7999 / 100) = 5628795846771343 / 70368744177664"
    by code_simp
  then show ?thesis
    by (simp add: determine_health_status_def)
qed

theorem determine_health_status_witness:
  "determine_health_status 95 = ''Excellent''
   \<and> determine_health_status 60 = ''Good''
   \<and> determine_health_status (119 / 2) = ''Fair''
   \<and> determine_health_status 0 = ''Needs Improvement''"
  using determine_health_status_thresholds [of 95]
    determine_health_status_thresholds [of 60]
    determine_health_status_thresholds [of "119 / 2"]
    determine_health_status_thresholds [of 0]
  by simp

end
